theory Spec2Isabelle
  imports Main "HOL-Library.Char_ord" "HOL-Library.List_Lexorder"
begin

section \<open>Work Manager: the session log, the week view, pruning and the to-do list\<close>

text \<open>
  A shallow embedding of \<^verbatim>\<open>src/work.py\<close>. Every command of the program reads the
  three JSON files, possibly rewrites one of them, prints, and returns or leaves through
  \<^verbatim>\<open>sys.exit\<close>. A command is therefore a function from the files (and the clock readings
  it takes) to the files afterwards, the things it printed and how it ended.
\<close>

subsection \<open>Time\<close>

text \<open>
  A naive \<^verbatim>\<open>datetime\<close> is the number of microseconds since 0001-01-01T00:00:00, a
  \<^verbatim>\<open>timedelta\<close> a number of microseconds and a \<^verbatim>\<open>date\<close> its proleptic Gregorian
  ordinal (\<^verbatim>\<open>toordinal()\<close>, day 1 is 0001-01-01), as integers. Dates are compared by
  Python field by field, which is the order of their ordinals. The readings of the clock
  and the few days added to them are taken as they are; the one number that comes from
  the command line and enters date arithmetic, the months of pruning, is checked against
  the limits of Python's types, where the arithmetic raises \<^verbatim>\<open>OverflowError\<close>.
\<close>

datatype error = OverflowError

type_synonym datetime = int
type_synonym timedelta = int
type_synonym date = int

definition timedelta_days :: "int \<Rightarrow> timedelta" where
  "timedelta_days d = d * 86400000000"

definition timedelta_weeks :: "int \<Rightarrow> timedelta" where
  "timedelta_weeks w = timedelta_days (7 * w)"

text \<open>
  \<^verbatim>\<open>timedelta(days=months_to_keep * 30.5)\<close>: the product is the float \<open>61 * m / 2\<close>, and
  half a day is 43200 seconds, so the span is a whole number of half days. A
  \<^verbatim>\<open>timedelta\<close> holds at most 999999999 days in either direction and the constructor
  raises \<^verbatim>\<open>OverflowError\<close> beyond; up to there the float product is exact, and a product
  too large to be exact, infinite or not a float at all raises the same error.
\<close>

definition MAX_DELTA_DAYS :: int where
  "MAX_DELTA_DAYS = 999999999"

definition timedelta_half_days :: "int \<Rightarrow> error + timedelta" where
  "timedelta_half_days k =
     (let span = k * 43200000000;
          days = span div 86400000000
      in if - MAX_DELTA_DAYS \<le> days \<and> days \<le> MAX_DELTA_DAYS then Inr span
         else Inl OverflowError)"

text \<open>
  \<^verbatim>\<open>datetime - timedelta\<close>: the result is a datetime from 0001-01-01T00:00:00 to
  9999-12-31T23:59:59.999999 (day 3652059 is the last), or \<^verbatim>\<open>OverflowError\<close> is raised.
\<close>

definition DATETIME_END :: datetime where
  "DATETIME_END = 3652059 * 86400000000"

definition datetime_sub :: "datetime \<Rightarrow> timedelta \<Rightarrow> error + datetime" where
  "datetime_sub dt span =
     (let r = dt - span in if 0 \<le> r \<and> r < DATETIME_END then Inr r else Inl OverflowError)"

definition toordinal :: "datetime \<Rightarrow> int" where
  "toordinal dt = dt div 86400000000 + 1"

definition weekday :: "datetime \<Rightarrow> int" where
  "weekday dt = (toordinal dt + 6) mod 7"

subsection \<open>The persisted records\<close>

text \<open>
  The work log holds \<^verbatim>\<open>{"start": ..., "end": ...}\<close> objects whose values are the
  \<^verbatim>\<open>isoformat()\<close> of naive datetimes, read back by \<^verbatim>\<open>fromisoformat\<close>; the two
  are inverse to each other, so an entry is modelled by the datetimes themselves. A
  to-do item always has its task; the keys \<^verbatim>\<open>group\<close> and \<^verbatim>\<open>deadline\<close> may be absent
  (\<open>None\<close>).
\<close>

record entry =
  entry_start :: datetime
  entry_end :: datetime

record session =
  start_time :: datetime

record todo =
  task :: string
  group :: "string option"
  deadline :: "string option"

text \<open>
  One field per file of the data directory; \<open>None\<close> is a file that is missing or does
  not decode as JSON.
\<close>

record store =
  work_log_file :: "entry list option"
  todos_file :: "todo list option"
  active_session_file :: "session option"

definition DEFAULT_MONTHS_TO_KEEP :: int where
  "DEFAULT_MONTHS_TO_KEEP = 6"

definition read_json_file :: "'a option \<Rightarrow> 'a \<Rightarrow> 'a" where
  "read_json_file file default_data =
     (case file of None \<Rightarrow> default_data | Some data \<Rightarrow> data)"

text \<open>
  \<^verbatim>\<open>read_json_file(ACTIVE_SESSION_FILE, default_data=None)\<close>: the marker or \<open>None\<close>. A
  marker written by \<^verbatim>\<open>start_work\<close> is a non-empty dictionary, hence true in a
  condition.
\<close>

definition get_active_session :: "store \<Rightarrow> session option" where
  "get_active_session s = active_session_file s"

subsection \<open>What a command prints and how it ends\<close>

datatype event =
    Manage_Systemd_Service string
  | Error_Already_Active
  | Session_Started datetime
  | No_Active_Session
  | Session_Stopped datetime timedelta
  | Not_Working
  | Currently_Working datetime timedelta
  | Work_Log_Empty
  | Week_Header datetime
  | No_Week_Sessions
  | Week_Sessions "(datetime \<times> timedelta) list" timedelta
  | Nothing_To_Prune
  | Pruned int int
  | No_Old_Entries
  | Deadline_Notifications "todo list" "todo list"
  | Todo_List_Empty
  | Todo_Groups "(string \<times> (int \<times> todo) list) list"
  | Added_Todo string string
  | Error_Invalid_Deadline string
  | Error_Invalid_Id int
  | Removed_Todo string

text \<open>A command returns, leaves through \<^verbatim>\<open>sys.exit\<close> or ends in an uncaught exception.\<close>

datatype status = Returned | Exited int | Raised error

type_synonym outcome = "store \<times> event list \<times> status"

definition store_of :: "outcome \<Rightarrow> store" where
  "store_of r = fst r"

definition printed :: "outcome \<Rightarrow> event list" where
  "printed r = fst (snd r)"

definition status_of :: "outcome \<Rightarrow> status" where
  "status_of r = snd (snd r)"

subsection \<open>Pruning\<close>

text \<open>Line 169: \<^verbatim>\<open>datetime.now() - timedelta(days=months_to_keep * 30.5)\<close>.\<close>

definition prune_cutoff :: "datetime \<Rightarrow> int \<Rightarrow> error + datetime" where
  "prune_cutoff now months_to_keep =
     (case timedelta_half_days (61 * months_to_keep) of
        Inl e \<Rightarrow> Inl e
      | Inr span \<Rightarrow> datetime_sub now span)"

definition prune_old_logs :: "datetime \<Rightarrow> int \<Rightarrow> bool \<Rightarrow> store \<Rightarrow> outcome" where
  "prune_old_logs now months_to_keep silent s =
     (let work_log = read_json_file (work_log_file s) [] in
      if work_log = [] then (s, if silent then [] else [Nothing_To_Prune], Returned)
      else
        case prune_cutoff now months_to_keep of
          Inl e \<Rightarrow> (s, [], Raised e)
        | Inr cutoff_date \<Rightarrow>
            let original_count = int (length work_log);
                logs_to_keep = filter (\<lambda>e. entry_end e \<ge> cutoff_date) work_log;
                new_count = int (length logs_to_keep);
                pruned_count = original_count - new_count
            in if pruned_count > 0
               then (s\<lparr>work_log_file := Some logs_to_keep\<rparr>,
                     if silent then [] else [Pruned pruned_count months_to_keep], Returned)
               else (s, if silent then [] else [No_Old_Entries], Returned))"

subsection \<open>Parsing a deadline\<close>

text \<open>
  \<^verbatim>\<open>datetime.strptime(s, "%Y-%m-%d")\<close> matches \<open>s\<close> from its first character against
  the regular expression of the format,
  \<^verbatim>\<open>(\d\d\d\d)-(1[0-2]|0[1-9]|[1-9])-(3[0-1]|[1-2]\d|0[1-9]|[1-9]| [1-9])\<close>,
  raises \<^verbatim>\<open>ValueError\<close> when there is no match or when the match leaves characters
  over, and then builds the date, which raises \<^verbatim>\<open>ValueError\<close> for year 0 and for a
  day the month does not have. Each matcher returns its matches in the order in which
  the alternatives are tried, with the rest of the input; a string is a list of
  characters below 256, among which the decimal digits are \<open>0\<close> to \<open>9\<close>. \<open>None\<close> is
  the \<^verbatim>\<open>ValueError\<close>.
\<close>

definition is_digit :: "char \<Rightarrow> bool" where
  "is_digit c = (c \<in> set ''0123456789'')"

definition digit :: "char \<Rightarrow> int" where
  "digit c = int (of_char c) - 48"

definition match_year :: "string \<Rightarrow> (int \<times> string) list" where
  "match_year str =
     (case str of
        a # b # c # d # rest \<Rightarrow>
          if is_digit a \<and> is_digit b \<and> is_digit c \<and> is_digit d
          then [(1000 * digit a + 100 * digit b + 10 * digit c + digit d, rest)]
          else []
      | _ \<Rightarrow> [])"

definition match_dash :: "string \<Rightarrow> string list" where
  "match_dash str = (case str of a # rest \<Rightarrow> if a = CHR ''-'' then [rest] else [] | _ \<Rightarrow> [])"

definition match_two :: "string \<Rightarrow> string \<Rightarrow> string \<Rightarrow> (int \<times> string) list" where
  "match_two firsts seconds str =
     (case str of
        a # b # rest \<Rightarrow>
          if a \<in> set firsts \<and> b \<in> set seconds
          then [((if is_digit a then 10 * digit a else 0) + digit b, rest)]
          else []
      | _ \<Rightarrow> [])"

definition match_one :: "string \<Rightarrow> string \<Rightarrow> (int \<times> string) list" where
  "match_one firsts str =
     (case str of a # rest \<Rightarrow> if a \<in> set firsts then [(digit a, rest)] else [] | _ \<Rightarrow> [])"

definition match_month :: "string \<Rightarrow> (int \<times> string) list" where
  "match_month str =
     match_two ''1'' ''012'' str @ match_two ''0'' ''123456789'' str @
     match_one ''123456789'' str"

definition match_day :: "string \<Rightarrow> (int \<times> string) list" where
  "match_day str =
     match_two ''3'' ''01'' str @ match_two ''12'' ''0123456789'' str @
     match_two ''0'' ''123456789'' str @ match_one ''123456789'' str @
     match_two '' '' ''123456789'' str"

definition match_format :: "string \<Rightarrow> ((int \<times> int \<times> int) \<times> string) list" where
  "match_format str =
     concat (map (\<lambda>(y, r1). concat (map (\<lambda>r2. concat (map (\<lambda>(m, r3).
       concat (map (\<lambda>r4. map (\<lambda>(d, r5). ((y, m, d), r5)) (match_day r4)) (match_dash r3)))
       (match_month r2))) (match_dash r1))) (match_year str))"

definition is_leap :: "int \<Rightarrow> bool" where
  "is_leap year = (year mod 4 = 0 \<and> (year mod 100 \<noteq> 0 \<or> year mod 400 = 0))"

definition days_before_year :: "int \<Rightarrow> int" where
  "days_before_year year =
     (let y = year - 1 in y * 365 + y div 4 - y div 100 + y div 400)"

definition DAYS_IN_MONTH :: "int list" where
  "DAYS_IN_MONTH = [-1, 31, 28, 31, 30, 31, 30, 31, 31, 30, 31, 30, 31]"

definition DAYS_BEFORE_MONTH :: "int list" where
  "DAYS_BEFORE_MONTH = [-1, 0, 31, 59, 90, 120, 151, 181, 212, 243, 273, 304, 334]"

definition days_in_month :: "int \<Rightarrow> int \<Rightarrow> int" where
  "days_in_month year month =
     (if month = 2 \<and> is_leap year then 29 else DAYS_IN_MONTH ! nat month)"

definition days_before_month :: "int \<Rightarrow> int \<Rightarrow> int" where
  "days_before_month year month =
     DAYS_BEFORE_MONTH ! nat month + (if month > 2 \<and> is_leap year then 1 else 0)"

definition ymd2ord :: "int \<Rightarrow> int \<Rightarrow> int \<Rightarrow> date" where
  "ymd2ord year month day = days_before_year year + days_before_month year month + day"

definition strptime :: "string \<Rightarrow> date option" where
  "strptime data_string =
     (case match_format data_string of
        [] \<Rightarrow> None
      | ((year, month, day), rest) # _ \<Rightarrow>
          if rest \<noteq> [] then None
          else if 1 \<le> year \<and> year \<le> 9999 \<and> 1 \<le> month \<and> month \<le> 12 \<and>
                  1 \<le> day \<and> day \<le> days_in_month year month
          then Some (ymd2ord year month day)
          else None)"

subsection \<open>The deadline check\<close>

text \<open>The truth value Python gives \<^verbatim>\<open>todo.get("deadline")\<close> and the \<^verbatim>\<open>deadline\<close> argument.\<close>

definition truthy :: "string option \<Rightarrow> bool" where
  "truthy v = (case v of None \<Rightarrow> False | Some str \<Rightarrow> str \<noteq> [])"

text \<open>
  Lines 201 to 209: the date of an item's deadline. \<open>None\<close> is an item without the key
  and an item whose deadline raises in \<^verbatim>\<open>strptime\<close>; the \<^verbatim>\<open>except\<close> branch continues
  with the next item, as the missing key does.
\<close>

definition deadline_date :: "todo \<Rightarrow> date option" where
  "deadline_date t = (case deadline t of None \<Rightarrow> None | Some str \<Rightarrow> strptime str)"

text \<open>
  The loop of \<^verbatim>\<open>check_deadlines\<close> over the to-do items, with the two lists it appends
  to.
\<close>

fun deadline_loop :: "date \<Rightarrow> date \<Rightarrow> todo list \<Rightarrow> todo list \<times> todo list \<Rightarrow> todo list \<times> todo list" where
  "deadline_loop today soon_threshold [] (overdue_tasks, upcoming_tasks) =
     (overdue_tasks, upcoming_tasks)"
| "deadline_loop today soon_threshold (t # rest) (overdue_tasks, upcoming_tasks) =
     (case deadline_date t of
        None \<Rightarrow> deadline_loop today soon_threshold rest (overdue_tasks, upcoming_tasks)
      | Some d \<Rightarrow>
          if d < today
          then deadline_loop today soon_threshold rest (overdue_tasks @ [t], upcoming_tasks)
          else if today \<le> d \<and> d \<le> soon_threshold
          then deadline_loop today soon_threshold rest (overdue_tasks, upcoming_tasks @ [t])
          else deadline_loop today soon_threshold rest (overdue_tasks, upcoming_tasks))"

definition check_deadlines :: "date \<Rightarrow> store \<Rightarrow> outcome" where
  "check_deadlines today s =
     (let todos = read_json_file (todos_file s) [] in
      if \<not> list_ex (\<lambda>t. truthy (deadline t)) todos then (s, [], Returned)
      else
        let soon_threshold = today + 2;
            (overdue_tasks, upcoming_tasks) = deadline_loop today soon_threshold todos ([], [])
        in if overdue_tasks = [] \<and> upcoming_tasks = [] then (s, [], Returned)
           else (s, [Deadline_Notifications overdue_tasks upcoming_tasks], Returned))"

subsection \<open>The to-do list\<close>

text \<open>
  \<^verbatim>\<open>grouped_todos\<close> is a dictionary from group names to lists, in insertion order: an
  association list with one pair for each key.
\<close>

definition group_of :: "todo \<Rightarrow> string" where
  "group_of t = (case group t of None \<Rightarrow> ''General'' | Some g \<Rightarrow> g)"

fun group_loop :: "(int \<times> todo) list \<Rightarrow> (string \<times> (int \<times> todo) list) list \<Rightarrow> (string \<times> (int \<times> todo) list) list" where
  "group_loop [] grouped_todos = grouped_todos"
| "group_loop (item # rest) grouped_todos =
     (let g = group_of (snd item) in
      if g \<notin> set (map fst grouped_todos)
      then group_loop rest (grouped_todos @ [(g, [item])])
      else group_loop rest
             (map (\<lambda>(k, items). if k = g then (k, items @ [item]) else (k, items)) grouped_todos))"

definition list_todos :: "store \<Rightarrow> outcome" where
  "list_todos s =
     (let todos = read_json_file (todos_file s) [] in
      if todos = [] then (s, [Todo_List_Empty], Returned)
      else
        let numbered = zip [1 .. int (length todos)] todos;
            grouped_todos = group_loop numbered []
        in (s, [Todo_Groups (sort_key fst grouped_todos)], Returned))"


definition remove_todo :: "int \<Rightarrow> store \<Rightarrow> outcome" where
  "remove_todo todo_id s =
     (let todos = read_json_file (todos_file s) [] in
      if \<not> (0 < todo_id \<and> todo_id \<le> int (length todos))
      then (s, [Error_Invalid_Id todo_id], Exited 1)
      else
        let removed_todo = todos ! nat (todo_id - 1);
            todos' = take (nat (todo_id - 1)) todos @ drop (nat todo_id) todos;
            s' = s\<lparr>todos_file := Some todos'\<rparr>;
            listing = list_todos s'
        in (store_of listing, Removed_Todo (task removed_todo) # printed listing,
            status_of listing))"

subsection \<open>The session\<close>

text \<open>
  \<^verbatim>\<open>start_work\<close> reads the clock twice, for the marker and for the message;
  \<^verbatim>\<open>stop_work\<close> reads it for the end of the session, and the pruning it calls last reads
  it again. The calls of \<^verbatim>\<open>systemctl\<close> touch none of the three files; a failure there
  is caught and only warned about.
\<close>

definition start_work :: "date \<Rightarrow> datetime \<Rightarrow> datetime \<Rightarrow> store \<Rightarrow> outcome" where
  "start_work today now now_shown s =
     (case get_active_session s of
        Some active \<Rightarrow> (s, [Error_Already_Active], Exited 1)
      | None \<Rightarrow>
          let checked = check_deadlines today s;
              new_session = \<lparr>start_time = now\<rparr>;
              s' = (store_of checked)\<lparr>active_session_file := Some new_session\<rparr>
          in (s', printed checked @ [Manage_Systemd_Service ''start'', Session_Started now_shown],
              Returned))"

definition stop_work :: "datetime \<Rightarrow> datetime \<Rightarrow> store \<Rightarrow> outcome" where
  "stop_work now now_prune s =
     (case get_active_session s of
        None \<Rightarrow> (s, [No_Active_Session, Manage_Systemd_Service ''stop''], Exited 0)
      | Some active \<Rightarrow>
          let started = start_time active;
              end_time = now;
              work_log = read_json_file (work_log_file s) [];
              s1 = s\<lparr>work_log_file :=
                      Some (work_log @ [\<lparr>entry_start = started, entry_end = end_time\<rparr>])\<rparr>;
              s2 = s1\<lparr>active_session_file := None\<rparr>;
              duration = end_time - started;
              pruned = prune_old_logs now_prune DEFAULT_MONTHS_TO_KEEP True s2
          in (store_of pruned,
              [Manage_Systemd_Service ''stop'', Session_Stopped end_time duration] @ printed pruned,
              status_of pruned))"

definition show_status :: "datetime \<Rightarrow> store \<Rightarrow> outcome" where
  "show_status now s =
     (case get_active_session s of
        None \<Rightarrow> (s, [Not_Working], Returned)
      | Some active \<Rightarrow>
          let started = start_time active;
              duration = now - started
          in (s, [Currently_Working started duration], Returned))"

subsection \<open>The weekly log\<close>

text \<open>Lines 125 to 128 of \<^verbatim>\<open>show_log\<close>: the bounds of the week it displays.\<close>

definition week_window :: "datetime \<Rightarrow> int \<Rightarrow> datetime \<times> datetime" where
  "week_window today week_offset =
     (let start_of_current_week = today - timedelta_days (weekday today);
          start_of_week = start_of_current_week + timedelta_weeks week_offset;
          end_of_week = start_of_week + timedelta_days 7
      in (start_of_week, end_of_week))"

text \<open>The loop of \<^verbatim>\<open>show_log\<close> over the log, with the total and the list it builds.\<close>

fun week_loop :: "datetime \<Rightarrow> datetime \<Rightarrow> entry list \<Rightarrow> timedelta \<times> (datetime \<times> timedelta) list \<Rightarrow> timedelta \<times> (datetime \<times> timedelta) list" where
  "week_loop start_of_week end_of_week [] (weekly_total, week_sessions) =
     (weekly_total, week_sessions)"
| "week_loop start_of_week end_of_week (e # rest) (weekly_total, week_sessions) =
     (let started = entry_start e in
      if start_of_week \<le> started \<and> started < end_of_week
      then
        let end_time = entry_end e;
            duration = end_time - started
        in week_loop start_of_week end_of_week rest
             (weekly_total + duration, week_sessions @ [(started, duration)])
      else week_loop start_of_week end_of_week rest (weekly_total, week_sessions))"

definition show_log :: "datetime \<Rightarrow> int \<Rightarrow> store \<Rightarrow> outcome" where
  "show_log now week_offset s =
     (let work_log = read_json_file (work_log_file s) [] in
      if work_log = [] then (s, [Work_Log_Empty], Returned)
      else
        let (start_of_week, end_of_week) = week_window now week_offset;
            (weekly_total, week_sessions) = week_loop start_of_week end_of_week work_log (0, [])
        in if week_sessions = [] then (s, [Week_Header start_of_week, No_Week_Sessions], Returned)
           else (s, [Week_Header start_of_week,
                     Week_Sessions (sort_key fst week_sessions) weekly_total], Returned))"

subsection \<open>Facts about the helpers\<close>

lemma filter_length_eq: "length (filter P xs) = length xs \<Longrightarrow> filter P xs = xs"
  by (metis length_filter_less linorder_neq_iff filter_True)

lemma prune_old_logs_store:
  "store_of (prune_old_logs now m silent s) =
     (case prune_cutoff now m of
        Inl e \<Rightarrow> s
      | Inr c \<Rightarrow>
          if filter (\<lambda>e. c \<le> entry_end e) (read_json_file (work_log_file s) []) =
             read_json_file (work_log_file s) []
          then s
          else s\<lparr>work_log_file :=
                   Some (filter (\<lambda>e. c \<le> entry_end e) (read_json_file (work_log_file s) []))\<rparr>)"
proof (cases "prune_cutoff now m")
  case (Inl e)
  then show ?thesis by (simp add: prune_old_logs_def store_of_def Let_def)
next
  case (Inr c)
  let ?log = "read_json_file (work_log_file s) []"
  let ?kept = "filter (\<lambda>e. c \<le> entry_end e) ?log"
  show ?thesis
  proof (cases "?kept = ?log")
    case True
    then show ?thesis using Inr by (simp add: prune_old_logs_def store_of_def Let_def)
  next
    case False
    then have "length ?kept \<noteq> length ?log" using filter_length_eq by blast
    then have "length ?kept < length ?log"
      using length_filter_le [of _ ?log] by (simp add: le_neq_implies_less)
    moreover have "?log \<noteq> []" using False by auto
    ultimately show ?thesis using False Inr
      by (simp add: prune_old_logs_def store_of_def Let_def)
  qed
qed

lemma prune_old_logs_log:
  "prune_cutoff now m = Inr c \<Longrightarrow>
   read_json_file (work_log_file (store_of (prune_old_logs now m silent s))) [] =
   filter (\<lambda>e. c \<le> entry_end e) (read_json_file (work_log_file s) [])"
  by (simp add: prune_old_logs_store read_json_file_def)

lemma prune_old_logs_raise:
  "prune_cutoff now m = Inl e \<Longrightarrow>
   store_of (prune_old_logs now m silent s) = s \<and>
   (read_json_file (work_log_file s) [] \<noteq> [] \<longrightarrow>
      status_of (prune_old_logs now m silent s) = Raised e \<and>
      printed (prune_old_logs now m silent s) = [])"
  by (simp add: prune_old_logs_store) (simp add: prune_old_logs_def status_of_def printed_def Let_def)

lemma prune_old_logs_frame:
  "todos_file (store_of (prune_old_logs now m silent s)) = todos_file s \<and>
   active_session_file (store_of (prune_old_logs now m silent s)) = active_session_file s"
  by (simp add: prune_old_logs_store split: sum.splits)

lemma prune_old_logs_status:
  "prune_cutoff now m = Inr c \<Longrightarrow> status_of (prune_old_logs now m silent s) = Returned"
  by (simp add: prune_old_logs_def status_of_def Let_def)

lemma prune_cutoff_Inr:
  "prune_cutoff now m = Inr c \<Longrightarrow>
   c = now - m * 2635200000000 \<and> 0 \<le> c \<and> c < DATETIME_END"
  by (auto simp: prune_cutoff_def timedelta_half_days_def datetime_sub_def Let_def
      split: sum.splits if_splits)

lemma prune_cutoff_Inl: "prune_cutoff now m = Inl e \<Longrightarrow> e = OverflowError"
  by (cases e) simp

lemma days_of_span:
  assumes "- 315537897600000000 < (x::int)" and "x < 315537897600000000"
  shows "- 999999999 \<le> x div 86400000000 \<and> x div 86400000000 \<le> 999999999"
proof -
  have lo: "(- 315537897600000000) div 86400000000 \<le> x div (86400000000::int)"
    using assms(1) by (intro zdiv_mono1) simp_all
  have hi: "x div 86400000000 \<le> 315537897600000000 div (86400000000::int)"
    using assms(2) by (intro zdiv_mono1) simp_all
  have "(- 315537897600000000) div (86400000000::int) = - 3652059" by simp
  moreover have "315537897600000000 div (86400000000::int) = 3652059" by simp
  ultimately show ?thesis using lo hi by simp
qed

lemma prune_cutoff_representable:
  assumes "0 \<le> now" and "now < DATETIME_END"
  shows "prune_cutoff now m = Inr (now - m * 2635200000000) \<longleftrightarrow>
         0 \<le> now - m * 2635200000000 \<and> now - m * 2635200000000 < DATETIME_END"
proof
  assume "prune_cutoff now m = Inr (now - m * 2635200000000)"
  then show "0 \<le> now - m * 2635200000000 \<and> now - m * 2635200000000 < DATETIME_END"
    using prune_cutoff_Inr by blast
next
  assume r: "0 \<le> now - m * 2635200000000 \<and> now - m * 2635200000000 < DATETIME_END"
  define x where "x = m * 2635200000000"
  have e: "DATETIME_END = 315537897600000000" by (simp add: DATETIME_END_def)
  have "- 315537897600000000 < x" and "x < 315537897600000000"
    using r assms unfolding x_def e by linarith+
  then have d: "- 999999999 \<le> x div 86400000000 \<and> x div 86400000000 \<le> 999999999"
    by (rule days_of_span)
  have sp: "61 * m * 43200000000 = x" by (simp add: x_def)
  have "timedelta_half_days (61 * m) = Inr x"
    using d by (simp add: timedelta_half_days_def Let_def MAX_DELTA_DAYS_def sp)
  then show "prune_cutoff now m = Inr (now - m * 2635200000000)"
    using r by (simp add: prune_cutoff_def datetime_sub_def Let_def x_def)
qed

lemma default_cutoff:
  "prune_cutoff now DEFAULT_MONTHS_TO_KEEP = Inr c \<Longrightarrow> c = now - timedelta_days 183"
  using prune_cutoff_Inr [of now DEFAULT_MONTHS_TO_KEEP c]
  by (simp add: DEFAULT_MONTHS_TO_KEEP_def timedelta_days_def)

lemma deadline_loop_filter:
  "deadline_loop today soon todos (ov, up) =
     (ov @ filter (\<lambda>t. case deadline_date t of None \<Rightarrow> False | Some d \<Rightarrow> d < today) todos,
      up @ filter (\<lambda>t. case deadline_date t of None \<Rightarrow> False
                        | Some d \<Rightarrow> today \<le> d \<and> d \<le> soon) todos)"
  by (induction todos arbitrary: ov up) (auto split: option.splits)

lemma check_deadlines_store: "store_of (check_deadlines today s) = s"
  by (simp add: check_deadlines_def store_of_def Let_def split: prod.splits)

lemma list_todos_store: "store_of (list_todos s) = s"
  by (simp add: list_todos_def store_of_def Let_def)

lemma list_todos_status: "status_of (list_todos s) = Returned"
  by (simp add: list_todos_def status_of_def Let_def)

lemma start_work_idle:
  "get_active_session s = None \<Longrightarrow>
   store_of (start_work today now now_shown s) =
     s\<lparr>active_session_file := Some \<lparr>start_time = now\<rparr>\<rparr> \<and>
   status_of (start_work today now now_shown s) = Returned"
  by (simp add: start_work_def Let_def check_deadlines_store) (simp add: store_of_def status_of_def)

lemma stop_work_active:
  "get_active_session s = Some a \<Longrightarrow>
   stop_work now now_prune s =
     (let s2 = s\<lparr>work_log_file :=
                   Some (read_json_file (work_log_file s) [] @
                         [\<lparr>entry_start = start_time a, entry_end = now\<rparr>]),
                 active_session_file := None\<rparr>;
          pruned = prune_old_logs now_prune DEFAULT_MONTHS_TO_KEEP True s2
      in (store_of pruned,
          [Manage_Systemd_Service ''stop'', Session_Stopped now (now - start_time a)] @
            printed pruned,
          status_of pruned))"
  by (simp add: stop_work_def Let_def)

lemma strptime_empty: "strptime [] = None"
  by (simp add: strptime_def match_format_def match_year_def)

lemma not_truthy_no_date: "\<not> truthy (deadline t) \<Longrightarrow> deadline_date t = None"
  by (auto simp: truthy_def deadline_date_def strptime_empty split: option.splits)

lemma no_truthy_no_dates:
  "\<not> list_ex (\<lambda>t. truthy (deadline t)) todos \<Longrightarrow>
   filter (\<lambda>t. case deadline_date t of None \<Rightarrow> False | Some d \<Rightarrow> P d) todos = []"
  by (induction todos) (auto simp: not_truthy_no_date)

lemma strptime_examples:
  "strptime ''2024-01-09'' = Some 738894" "strptime ''2024-01-10'' = Some 738895"
  "strptime ''2024-01-12'' = Some 738897" "strptime ''2024-01-13'' = Some 738898"
  "strptime ''2024-13-01'' = None"
  by code_simp+

text \<open>
  \<^verbatim>\<open>strptime\<close> is more lenient than the strict ten-character form: months and days of
  one digit, and a day padded with a space, are accepted.
\<close>

lemma strptime_lenient:
  "strptime ''2024-1-5'' = Some 738890" "strptime ''2024-01- 5'' = Some 738890"
  by code_simp+

lemma weekday_range: "0 \<le> weekday now \<and> weekday now \<le> 6"
  by (simp add: weekday_def)

lemma week_loop_filter:
  "week_loop lo hi work_log (acc, sessions) =
     (acc + sum_list (map (\<lambda>e. entry_end e - entry_start e)
                 (filter (\<lambda>e. lo \<le> entry_start e \<and> entry_start e < hi) work_log)),
      sessions @ map (\<lambda>e. (entry_start e, entry_end e - entry_start e))
                 (filter (\<lambda>e. lo \<le> entry_start e \<and> entry_start e < hi) work_log))"
  by (induction work_log arbitrary: acc sessions) (auto simp: Let_def)

lemma show_log_printed:
  "printed (show_log now week_offset s) =
     (let work_log = read_json_file (work_log_file s) [];
          shown = filter (\<lambda>e. fst (week_window now week_offset) \<le> entry_start e \<and>
                               entry_start e < snd (week_window now week_offset)) work_log
      in if work_log = [] then [Work_Log_Empty]
         else if shown = [] then [Week_Header (fst (week_window now week_offset)), No_Week_Sessions]
         else [Week_Header (fst (week_window now week_offset)),
               Week_Sessions
                 (sort_key fst (map (\<lambda>e. (entry_start e, entry_end e - entry_start e)) shown))
                 (sum_list (map (\<lambda>e. entry_end e - entry_start e) shown))])"
  by (simp add: show_log_def printed_def Let_def week_loop_filter split: prod.splits)

lemma shift_days_mod: "(t + k * 86400000000) mod 86400000000 = (t::int) mod 86400000000"
  by simp

lemma shift_days_div: "(t + k * 86400000000) div 86400000000 = (t::int) div 86400000000 + k"
  by simp

lemma monday_aligned: "((q::int) + (7 * w - (q + 7) mod 7) + 7) mod 7 = 0"
  by presburger

lemma week_window_shape:
  "fst (week_window now week_offset) =
     now - weekday now * 86400000000 + week_offset * 604800000000 \<and>
   snd (week_window now week_offset) = fst (week_window now week_offset) + 604800000000 \<and>
   fst (week_window now week_offset) mod 86400000000 = now mod 86400000000 \<and>
   weekday (fst (week_window now week_offset)) = 0"
proof -
  define k where "k = 7 * week_offset - weekday now"
  define q where "q = now div 86400000000"
  have st: "fst (week_window now week_offset) =
      now - weekday now * 86400000000 + week_offset * 604800000000"
    by (simp add: week_window_def Let_def timedelta_days_def timedelta_weeks_def)
  have en: "snd (week_window now week_offset) = fst (week_window now week_offset) + 604800000000"
    by (simp add: week_window_def Let_def timedelta_days_def timedelta_weeks_def)
  have eq: "fst (week_window now week_offset) = now + k * 86400000000"
    by (simp add: st k_def algebra_simps)
  have md: "(now + k * 86400000000) mod 86400000000 = now mod 86400000000"
    by (rule shift_days_mod)
  have w0: "weekday now = (q + 7) mod 7"
    by (simp add: weekday_def toordinal_def q_def)
  have "weekday (now + k * 86400000000) = (q + k + 7) mod 7"
    unfolding weekday_def toordinal_def shift_days_div q_def by simp
  also have "\<dots> = 0"
    unfolding k_def w0 by (rule monday_aligned)
  finally have wd: "weekday (now + k * 86400000000) = 0" .
  have p3: "fst (week_window now week_offset) mod 86400000000 = now mod 86400000000"
    unfolding eq by (rule md)
  have p4: "weekday (fst (week_window now week_offset)) = 0"
    unfolding eq by (rule wd)
  show ?thesis using st en p3 p4 by blast
qed

subsection \<open>The session: start and stop\<close>

text \<open>
  Claim C1, as amended. From a store without an active session, \<^verbatim>\<open>start_work\<close> returns
  and writes the marker with the clock reading \<open>now_start\<close>. \<^verbatim>\<open>stop_work\<close> after it,
  reading the clock at \<open>now_stop\<close>, appends the one entry from \<open>now_start\<close> to
  \<open>now_stop\<close>, prints that duration, removes the marker and leaves the to-do list alone;
  then it prunes with the default six months (183 days) and a clock reading of its own,
  \<open>now_prune\<close>. The log after \<^verbatim>\<open>stop_work\<close> is therefore the old log and the new entry
  without the entries that ended before \<open>now_prune\<close> minus 183 days: old entries can be
  gone, and the new entry is the last of the log, with end minus start the time between
  the two readings, when \<open>now_stop\<close> is not before that cutoff. Where the cutoff is not a
  datetime (a clock in the first 183 days of year 1), the pruning raises after the entry
  has been written and the marker removed.
\<close>

theorem start_then_stop_appends_and_prunes:
  assumes idle: "get_active_session s = None"
  shows "let started = start_work today now_start now_shown s;
             stopped = stop_work now_stop now_prune (store_of started);
             new_entry = \<lparr>entry_start = now_start, entry_end = now_stop\<rparr>;
             old_log = read_json_file (work_log_file s) [];
             new_log = read_json_file (work_log_file (store_of stopped)) [];
             cutoff = now_prune - timedelta_days 183
         in status_of started = Returned \<and>
            get_active_session (store_of started) = Some \<lparr>start_time = now_start\<rparr> \<and>
            (prune_cutoff now_prune DEFAULT_MONTHS_TO_KEEP = Inr cutoff \<longrightarrow>
               status_of stopped = Returned \<and>
               new_log = filter (\<lambda>e. cutoff \<le> entry_end e) (old_log @ [new_entry]) \<and>
               (cutoff \<le> now_stop \<longrightarrow>
                  new_log = filter (\<lambda>e. cutoff \<le> entry_end e) old_log @ [new_entry] \<and>
                  entry_end (last new_log) - entry_start (last new_log) = now_stop - now_start)) \<and>
            (prune_cutoff now_prune DEFAULT_MONTHS_TO_KEEP \<noteq> Inr cutoff \<longrightarrow>
               status_of stopped = Raised OverflowError \<and>
               new_log = old_log @ [new_entry] \<and>
               entry_end (last new_log) - entry_start (last new_log) = now_stop - now_start) \<and>
            Session_Stopped now_stop (now_stop - now_start) \<in> set (printed stopped) \<and>
            get_active_session (store_of stopped) = None \<and>
            todos_file (store_of stopped) = todos_file s"
proof -
  let ?s1 = "store_of (start_work today now_start now_shown s)"
  let ?e = "\<lparr>entry_start = now_start, entry_end = now_stop\<rparr>"
  let ?old = "read_json_file (work_log_file s) []"
  let ?s2 = "s\<lparr>work_log_file := Some (?old @ [?e]), active_session_file := None\<rparr>"
  let ?pr = "prune_old_logs now_prune DEFAULT_MONTHS_TO_KEEP True ?s2"
  let ?c = "now_prune - timedelta_days 183"
  have s1: "?s1 = s\<lparr>active_session_file := Some \<lparr>start_time = now_start\<rparr>\<rparr>"
    and st1: "status_of (start_work today now_start now_shown s) = Returned"
    using start_work_idle [OF idle] by auto
  have act: "get_active_session ?s1 = Some \<lparr>start_time = now_start\<rparr>"
    by (simp add: s1 get_active_session_def)
  have stop_eq: "stop_work now_stop now_prune ?s1 =
      (store_of ?pr,
       [Manage_Systemd_Service ''stop'', Session_Stopped now_stop (now_stop - now_start)] @
         printed ?pr,
       status_of ?pr)"
    using stop_work_active [OF act, of now_stop now_prune] by (simp add: Let_def s1)
  have sto: "store_of (stop_work now_stop now_prune ?s1) = store_of ?pr"
    and sts: "status_of (stop_work now_stop now_prune ?s1) = status_of ?pr"
    and out: "Session_Stopped now_stop (now_stop - now_start) \<in>
        set (printed (stop_work now_stop now_prune ?s1))"
    unfolding stop_eq by (simp_all add: store_of_def status_of_def printed_def)
  have log2: "read_json_file (work_log_file ?s2) [] = ?old @ [?e]"
    by (simp add: read_json_file_def)
  have ok: "prune_cutoff now_prune DEFAULT_MONTHS_TO_KEEP = Inr ?c \<Longrightarrow>
      status_of ?pr = Returned \<and>
      read_json_file (work_log_file (store_of ?pr)) [] =
        filter (\<lambda>e. ?c \<le> entry_end e) (?old @ [?e])"
    using prune_old_logs_log [of now_prune DEFAULT_MONTHS_TO_KEEP ?c True ?s2]
      prune_old_logs_status [of now_prune DEFAULT_MONTHS_TO_KEEP ?c True ?s2]
    by (simp only: log2)
  have bad: "prune_cutoff now_prune DEFAULT_MONTHS_TO_KEEP \<noteq> Inr ?c \<Longrightarrow>
      status_of ?pr = Raised OverflowError \<and>
      read_json_file (work_log_file (store_of ?pr)) [] = ?old @ [?e]"
  proof -
    assume n: "prune_cutoff now_prune DEFAULT_MONTHS_TO_KEEP \<noteq> Inr ?c"
    have "prune_cutoff now_prune DEFAULT_MONTHS_TO_KEEP = Inl OverflowError"
    proof (cases "prune_cutoff now_prune DEFAULT_MONTHS_TO_KEEP")
      case (Inl e)
      then show ?thesis using prune_cutoff_Inl by blast
    next
      case (Inr c)
      then show ?thesis using n default_cutoff by blast
    qed
    then have "store_of ?pr = ?s2 \<and> status_of ?pr = Raised OverflowError"
      using prune_old_logs_raise [of now_prune DEFAULT_MONTHS_TO_KEEP OverflowError True ?s2]
      by (simp only: log2) simp
    then show ?thesis by (simp add: read_json_file_def)
  qed
  have frame: "get_active_session (store_of ?pr) = None \<and> todos_file (store_of ?pr) = todos_file s"
    using prune_old_logs_frame [of now_prune DEFAULT_MONTHS_TO_KEEP True ?s2]
    by (simp add: get_active_session_def)
  show ?thesis
    unfolding Let_def sto sts using st1 act ok bad frame out by auto
qed

theorem start_then_stop_appends_and_prunes_witness:
  "read_json_file (work_log_file (store_of
     (stop_work 63840304800000000 63840304800000250
       (store_of (start_work 738893 63840301200000000 63840301200000120
          \<lparr>work_log_file = Some [\<lparr>entry_start = 63808765200000000, entry_end = 63808794000000000\<rparr>,
                                 \<lparr>entry_start = 63839696400000000, entry_end = 63839725200000000\<rparr>],
           todos_file = None, active_session_file = None\<rparr>))))) [] =
     [\<lparr>entry_start = 63839696400000000, entry_end = 63839725200000000\<rparr>,
      \<lparr>entry_start = 63840301200000000, entry_end = 63840304800000000\<rparr>] \<and>
   get_active_session (store_of
     (stop_work 63840304800000000 63840304800000250
       (store_of (start_work 738893 63840301200000000 63840301200000120
          \<lparr>work_log_file = Some [\<lparr>entry_start = 63808765200000000, entry_end = 63808794000000000\<rparr>,
                                 \<lparr>entry_start = 63839696400000000, entry_end = 63839725200000000\<rparr>],
           todos_file = None, active_session_file = None\<rparr>)))) = None"
proof -
  let ?s = "\<lparr>work_log_file = Some [\<lparr>entry_start = 63808765200000000, entry_end = 63808794000000000\<rparr>,
                                 \<lparr>entry_start = 63839696400000000, entry_end = 63839725200000000\<rparr>],
           todos_file = None, active_session_file = None :: session option\<rparr>"
  have idle: "get_active_session ?s = None"
    by (simp add: get_active_session_def)
  have cut: "prune_cutoff 63840304800000250 DEFAULT_MONTHS_TO_KEEP =
      Inr (63840304800000250 - timedelta_days 183)"
    by (simp add: prune_cutoff_def timedelta_half_days_def datetime_sub_def Let_def
        DEFAULT_MONTHS_TO_KEEP_def MAX_DELTA_DAYS_def DATETIME_END_def timedelta_days_def)
  show ?thesis
    using start_then_stop_appends_and_prunes [OF idle, where today = 738893
        and now_start = 63840301200000000 and now_shown = 63840301200000120
        and now_stop = 63840304800000000 and now_prune = 63840304800000250]
    by (simp add: Let_def read_json_file_def cut) (simp add: timedelta_days_def)
qed

text \<open>
  The claim as it was stated fails in two ways. With one entry of January 2023 in the
  log, a session on 2024-01-08 from 09:00 to 10:00 leaves a log of one entry, not two:
  the old entry is pruned. And when the clock moves on by more than 183 days between the
  two readings of \<^verbatim>\<open>stop_work\<close>, the entry just appended is pruned with the rest and the
  log is empty.
\<close>

theorem start_then_stop_counterexample:
  "get_active_session
     \<lparr>work_log_file = Some [\<lparr>entry_start = 63808765200000000, entry_end = 63808794000000000\<rparr>],
      todos_file = None, active_session_file = None\<rparr> = None \<and>
   status_of (start_work 738893 63840301200000000 63840301200000120
     \<lparr>work_log_file = Some [\<lparr>entry_start = 63808765200000000, entry_end = 63808794000000000\<rparr>],
      todos_file = None, active_session_file = None\<rparr>) = Returned \<and>
   stop_work 63840304800000000 63840304800000250
     (store_of (start_work 738893 63840301200000000 63840301200000120
        \<lparr>work_log_file = Some [\<lparr>entry_start = 63808765200000000, entry_end = 63808794000000000\<rparr>],
         todos_file = None, active_session_file = None\<rparr>)) =
   (\<lparr>work_log_file = Some [\<lparr>entry_start = 63840301200000000, entry_end = 63840304800000000\<rparr>],
      todos_file = None, active_session_file = None\<rparr>,
    [Manage_Systemd_Service ''stop'', Session_Stopped 63840304800000000 3600000000], Returned) \<and>
   stop_work 63840304800000000 63856116000000001
     (store_of (start_work 738893 63840301200000000 63840301200000120
        \<lparr>work_log_file = None, todos_file = None, active_session_file = None\<rparr>)) =
   (\<lparr>work_log_file = Some [], todos_file = None, active_session_file = None\<rparr>,
    [Manage_Systemd_Service ''stop'', Session_Stopped 63840304800000000 3600000000], Returned)"
  by (simp add: get_active_session_def start_work_def check_deadlines_def stop_work_def
      prune_old_logs_def prune_cutoff_def timedelta_half_days_def datetime_sub_def
      DEFAULT_MONTHS_TO_KEEP_def MAX_DELTA_DAYS_def DATETIME_END_def
      read_json_file_def store_of_def status_of_def printed_def Let_def)

text \<open>
  Claim C2. With an active session marker in the store, \<^verbatim>\<open>start_work\<close> prints the
  error, leaves through \<^verbatim>\<open>sys.exit(1)\<close> and hands back the store it was given: work
  log, to-do list and marker are what they were.
\<close>

theorem start_while_active_fails:
  assumes "get_active_session s \<noteq> None"
  shows "start_work today now now_shown s = (s, [Error_Already_Active], Exited 1)"
  using assms by (auto simp: start_work_def)

theorem start_while_active_fails_witness:
  "start_work 738895 63840495600000000 63840495600000090
     \<lparr>work_log_file = None, todos_file = None,
      active_session_file = Some \<lparr>start_time = 63840474000000000\<rparr>\<rparr> =
   (\<lparr>work_log_file = None, todos_file = None,
      active_session_file = Some \<lparr>start_time = 63840474000000000\<rparr>\<rparr>,
    [Error_Already_Active], Exited 1)"
proof -
  have active: "get_active_session \<lparr>work_log_file = None, todos_file = None,
      active_session_file = Some \<lparr>start_time = 63840474000000000\<rparr>\<rparr> \<noteq> None"
    by (simp add: get_active_session_def)
  show ?thesis
    by (rule start_while_active_fails [OF active])
qed

subsection \<open>The week of the log display\<close>

text \<open>
  Claim C3. The week shown by \<^verbatim>\<open>show_log\<close> is seven days long, its upper bound is
  exclusive and it moves by whole weeks with the offset, but it does not start at
  midnight: \<^verbatim>\<open>today - timedelta(days=today.weekday())\<close> keeps the time of day of the clock
  reading (\<open>week_window_shape\<close>). On Wednesday 2024-01-10 at 15:00 the current week
  starts on Monday 2024-01-08 at 15:00; a session of that Monday from 09:00 to 10:00 is
  not listed in the current week, and is listed in the last one.
\<close>

theorem show_log_week_starts_at_time_of_day:
  "week_window 63840495600000000 0 = (63840322800000000, 63840927600000000) \<and>
   fst (week_window 63840495600000000 0) mod 86400000000 = 54000000000 \<and>
   printed (show_log 63840495600000000 0
     \<lparr>work_log_file = Some [\<lparr>entry_start = 63840301200000000, entry_end = 63840304800000000\<rparr>],
      todos_file = None, active_session_file = None\<rparr>) =
     [Week_Header 63840322800000000, No_Week_Sessions] \<and>
   printed (show_log 63840495600000000 (-1)
     \<lparr>work_log_file = Some [\<lparr>entry_start = 63840301200000000, entry_end = 63840304800000000\<rparr>],
      todos_file = None, active_session_file = None\<rparr>) =
     [Week_Header 63839718000000000,
      Week_Sessions [(63840301200000000, 3600000000)] 3600000000]"
  by (simp add: week_window_def weekday_def toordinal_def timedelta_days_def timedelta_weeks_def
      show_log_def printed_def read_json_file_def Let_def)

text \<open>
  Claim C4. For every clock reading, the week computed with offset 0 contains the
  reading, and the week computed with offset -1 ends where the week with offset 0
  starts.
\<close>

theorem week_window_contains_now:
  "fst (week_window now 0) \<le> now \<and> now < snd (week_window now 0) \<and>
   snd (week_window now (-1)) = fst (week_window now 0)"
  using weekday_range [of now]
  by (simp add: week_window_def Let_def timedelta_weeks_def timedelta_days_def)

theorem week_window_contains_now_witness:
  "fst (week_window 63840495600000000 0) = 63840322800000000 \<and>
   snd (week_window 63840495600000000 0) = 63840927600000000 \<and>
   snd (week_window 63840495600000000 (-1)) = 63840322800000000 \<and>
   fst (week_window 63840495600000000 0) \<le> 63840495600000000 \<and>
   63840495600000000 < snd (week_window 63840495600000000 0)"
  using week_window_contains_now [of 63840495600000000]
  by (simp add: week_window_def weekday_def toordinal_def timedelta_days_def timedelta_weeks_def
      Let_def)

subsection \<open>Pruning the log\<close>

text \<open>
  Claim C5, as amended. Let the cutoff be the clock reading minus \<open>m\<close> times 30.5 days
  (2635200 seconds each). Where line 169 computes it, \<^verbatim>\<open>prune_old_logs\<close> returns and the
  log afterwards holds exactly the entries whose end is at or after the cutoff, in their
  order; an entry that ends exactly at the cutoff stays. Line 169 computes it exactly
  when the cutoff is a datetime of the years 1 to 9999 (for a clock reading that is one).
  Otherwise it raises \<^verbatim>\<open>OverflowError\<close>, which nothing catches: the command ends in the
  exception on a log that is not empty, and the files are as they were. The other two
  files are never touched, and the silent mode changes nothing of this.
\<close>

theorem prune_retains_exactly_recent:
  "let cutoff = now - m * 2635200000000;
       work_log = read_json_file (work_log_file s) [];
       pruned = prune_old_logs now m silent s;
       kept = read_json_file (work_log_file (store_of pruned)) []
   in (prune_cutoff now m = Inr cutoff \<longrightarrow>
         status_of pruned = Returned \<and>
         kept = filter (\<lambda>e. cutoff \<le> entry_end e) work_log \<and>
         (\<forall>e \<in> set work_log. e \<in> set kept \<longleftrightarrow> cutoff \<le> entry_end e) \<and>
         (\<forall>e \<in> set work_log. entry_end e = cutoff \<longrightarrow> e \<in> set kept)) \<and>
      (prune_cutoff now m \<noteq> Inr cutoff \<longrightarrow>
         prune_cutoff now m = Inl OverflowError \<and> store_of pruned = s \<and>
         (work_log \<noteq> [] \<longrightarrow> status_of pruned = Raised OverflowError)) \<and>
      (0 \<le> now \<and> now < DATETIME_END \<longrightarrow>
         (prune_cutoff now m = Inr cutoff \<longleftrightarrow> 0 \<le> cutoff \<and> cutoff < DATETIME_END)) \<and>
      todos_file (store_of pruned) = todos_file s \<and>
      active_session_file (store_of pruned) = active_session_file s"
proof -
  let ?c = "now - m * 2635200000000"
  have ok: "prune_cutoff now m = Inr ?c \<Longrightarrow>
      status_of (prune_old_logs now m silent s) = Returned \<and>
      read_json_file (work_log_file (store_of (prune_old_logs now m silent s))) [] =
        filter (\<lambda>e. ?c \<le> entry_end e) (read_json_file (work_log_file s) [])"
    using prune_old_logs_log prune_old_logs_status by blast
  have bad: "prune_cutoff now m \<noteq> Inr ?c \<Longrightarrow>
      prune_cutoff now m = Inl OverflowError \<and> store_of (prune_old_logs now m silent s) = s \<and>
      (read_json_file (work_log_file s) [] \<noteq> [] \<longrightarrow>
         status_of (prune_old_logs now m silent s) = Raised OverflowError)"
  proof -
    assume n: "prune_cutoff now m \<noteq> Inr ?c"
    have "prune_cutoff now m = Inl OverflowError"
    proof (cases "prune_cutoff now m")
      case (Inl e)
      then show ?thesis using prune_cutoff_Inl by blast
    next
      case (Inr c)
      then show ?thesis using n prune_cutoff_Inr by blast
    qed
    then show ?thesis using prune_old_logs_raise by blast
  qed
  have rep: "0 \<le> now \<and> now < DATETIME_END \<Longrightarrow>
      (prune_cutoff now m = Inr ?c \<longleftrightarrow> 0 \<le> ?c \<and> ?c < DATETIME_END)"
    using prune_cutoff_representable by blast
  show ?thesis
    unfolding Let_def using ok bad rep prune_old_logs_frame [of now m silent s] by auto
qed

theorem prune_retains_exactly_recent_witness:
  "prune_cutoff 63840495600000000 6 = Inr 63824684400000000 \<and>
   read_json_file (work_log_file (store_of (prune_old_logs 63840495600000000 6 False
     \<lparr>work_log_file = Some [\<lparr>entry_start = 63824600000000000, entry_end = 63824684399999999\<rparr>,
                            \<lparr>entry_start = 63824600000000000, entry_end = 63824684400000000\<rparr>,
                            \<lparr>entry_start = 63840301200000000, entry_end = 63840304800000000\<rparr>],
      todos_file = None, active_session_file = None\<rparr>))) [] =
   [\<lparr>entry_start = 63824600000000000, entry_end = 63824684400000000\<rparr>,
    \<lparr>entry_start = 63840301200000000, entry_end = 63840304800000000\<rparr>] \<and>
   prune_cutoff 63840495600000000 24227 = Inl OverflowError \<and>
   prune_old_logs 63840495600000000 24227 False
     \<lparr>work_log_file = Some [\<lparr>entry_start = 63840301200000000, entry_end = 63840304800000000\<rparr>],
      todos_file = None, active_session_file = None\<rparr> =
   (\<lparr>work_log_file = Some [\<lparr>entry_start = 63840301200000000, entry_end = 63840304800000000\<rparr>],
      todos_file = None, active_session_file = None\<rparr>, [], Raised OverflowError)"
proof -
  have c1: "prune_cutoff 63840495600000000 6 = Inr 63824684400000000"
    by (simp add: prune_cutoff_def timedelta_half_days_def datetime_sub_def Let_def
        MAX_DELTA_DAYS_def DATETIME_END_def)
  have c2: "prune_cutoff 63840495600000000 24227 = Inl OverflowError"
    by (simp add: prune_cutoff_def timedelta_half_days_def datetime_sub_def Let_def
        MAX_DELTA_DAYS_def DATETIME_END_def)
  have pr: "printed (prune_old_logs 63840495600000000 24227 False
     \<lparr>work_log_file = Some [\<lparr>entry_start = 63840301200000000, entry_end = 63840304800000000\<rparr>],
      todos_file = None, active_session_file = None\<rparr>) = []"
    using c2 by (simp add: prune_old_logs_def printed_def read_json_file_def Let_def)
  have a: "read_json_file (work_log_file (store_of (prune_old_logs 63840495600000000 6 False
     \<lparr>work_log_file = Some [\<lparr>entry_start = 63824600000000000, entry_end = 63824684399999999\<rparr>,
                            \<lparr>entry_start = 63824600000000000, entry_end = 63824684400000000\<rparr>,
                            \<lparr>entry_start = 63840301200000000, entry_end = 63840304800000000\<rparr>],
      todos_file = None, active_session_file = None\<rparr>))) [] =
   [\<lparr>entry_start = 63824600000000000, entry_end = 63824684400000000\<rparr>,
    \<lparr>entry_start = 63840301200000000, entry_end = 63840304800000000\<rparr>]"
    using prune_retains_exactly_recent [where now = 63840495600000000 and m = 6 and silent = False
     and s = "\<lparr>work_log_file = Some [\<lparr>entry_start = 63824600000000000, entry_end = 63824684399999999\<rparr>,
                            \<lparr>entry_start = 63824600000000000, entry_end = 63824684400000000\<rparr>,
                            \<lparr>entry_start = 63840301200000000, entry_end = 63840304800000000\<rparr>],
      todos_file = None, active_session_file = None\<rparr>"] c1
    by (simp add: Let_def read_json_file_def)
  have b: "store_of (prune_old_logs 63840495600000000 24227 False
     \<lparr>work_log_file = Some [\<lparr>entry_start = 63840301200000000, entry_end = 63840304800000000\<rparr>],
      todos_file = None, active_session_file = None\<rparr>) =
      \<lparr>work_log_file = Some [\<lparr>entry_start = 63840301200000000, entry_end = 63840304800000000\<rparr>],
      todos_file = None, active_session_file = None\<rparr> \<and>
     status_of (prune_old_logs 63840495600000000 24227 False
     \<lparr>work_log_file = Some [\<lparr>entry_start = 63840301200000000, entry_end = 63840304800000000\<rparr>],
      todos_file = None, active_session_file = None\<rparr>) = Raised OverflowError"
    using prune_retains_exactly_recent [where now = 63840495600000000 and m = 24227 and silent = False
     and s = "\<lparr>work_log_file = Some [\<lparr>entry_start = 63840301200000000, entry_end = 63840304800000000\<rparr>],
      todos_file = None, active_session_file = None\<rparr>"] c2
    by (simp add: Let_def read_json_file_def)
  have whole: "prune_old_logs 63840495600000000 24227 False
     \<lparr>work_log_file = Some [\<lparr>entry_start = 63840301200000000, entry_end = 63840304800000000\<rparr>],
      todos_file = None, active_session_file = None\<rparr> =
   (\<lparr>work_log_file = Some [\<lparr>entry_start = 63840301200000000, entry_end = 63840304800000000\<rparr>],
      todos_file = None, active_session_file = None\<rparr>, [], Raised OverflowError)"
    using b pr unfolding store_of_def status_of_def printed_def
    by (metis prod.collapse)
  show ?thesis using c1 c2 a whole by simp
qed

text \<open>
  The claim as it was stated fails where the cutoff leaves the range of datetimes. On
  2024-01-10 at 15:00 with \<open>m = -95514\<close> the cutoff would lie after the year 9999 and after
  the end of every entry, so every entry would have to go; the code raises and keeps the
  log. With \<open>m = 24227\<close> the cutoff would lie before the year 1 and the code raises
  as well.
\<close>

theorem prune_overflow_counterexample:
  "prune_old_logs 63840495600000000 (- 95514) False
     \<lparr>work_log_file = Some [\<lparr>entry_start = 63840301200000000, entry_end = 63840304800000000\<rparr>],
      todos_file = None, active_session_file = None\<rparr> =
   (\<lparr>work_log_file = Some [\<lparr>entry_start = 63840301200000000, entry_end = 63840304800000000\<rparr>],
      todos_file = None, active_session_file = None\<rparr>, [], Raised OverflowError) \<and>
   filter (\<lambda>e. 63840495600000000 - (- 95514) * 2635200000000 \<le> entry_end e)
     [\<lparr>entry_start = 63840301200000000, entry_end = 63840304800000000\<rparr>] = [] \<and>
   status_of (prune_old_logs 63840495600000000 24227 False
     \<lparr>work_log_file = Some [\<lparr>entry_start = 63840301200000000, entry_end = 63840304800000000\<rparr>],
      todos_file = None, active_session_file = None\<rparr>) = Raised OverflowError"
  by (simp add: prune_old_logs_def prune_cutoff_def timedelta_half_days_def datetime_sub_def
      MAX_DELTA_DAYS_def DATETIME_END_def read_json_file_def status_of_def Let_def)

text \<open>
  Claim C6. Pruning a second time with the same clock reading and the same number of
  months leaves the store as the first pruning left it: the second run removes no
  entry and reports none removed.
\<close>

theorem prune_twice_removes_nothing:
  "let first = prune_old_logs now m silent_first s;
       second = prune_old_logs now m silent_second (store_of first)
   in store_of second = store_of first \<and>
      length (read_json_file (work_log_file (store_of second)) []) =
      length (read_json_file (work_log_file (store_of first)) []) \<and>
      (\<forall>n k. Pruned n k \<notin> set (printed second))"
proof (cases "prune_cutoff now m")
  case (Inl e)
  let ?s1 = "store_of (prune_old_logs now m silent_first s)"
  have st: "store_of (prune_old_logs now m silent_second ?s1) = ?s1"
    using Inl by (simp add: prune_old_logs_store)
  have pr: "\<forall>n k. Pruned n k \<notin> set (printed (prune_old_logs now m silent_second ?s1))"
    using Inl by (simp add: prune_old_logs_def printed_def Let_def)
  show ?thesis using st pr by (simp add: Let_def)
next
  case (Inr c)
  let ?P = "\<lambda>e. c \<le> entry_end e"
  let ?s1 = "store_of (prune_old_logs now m silent_first s)"
  have log1: "read_json_file (work_log_file ?s1) [] = filter ?P (read_json_file (work_log_file s) [])"
    using Inr by (rule prune_old_logs_log)
  then have fp: "filter ?P (read_json_file (work_log_file ?s1) []) = read_json_file (work_log_file ?s1) []"
    by simp
  have st: "store_of (prune_old_logs now m silent_second ?s1) = ?s1"
    using fp Inr by (simp add: prune_old_logs_store)
  have pr: "\<forall>n k. Pruned n k \<notin> set (printed (prune_old_logs now m silent_second ?s1))"
    using fp Inr by (simp add: prune_old_logs_def printed_def Let_def)
  show ?thesis using st pr by (simp add: Let_def)
qed

theorem prune_twice_removes_nothing_witness:
  "store_of (prune_old_logs 63840495600000000 6 False (store_of (prune_old_logs 63840495600000000 6 False
     \<lparr>work_log_file = Some [\<lparr>entry_start = 63824600000000000, entry_end = 63824684399999999\<rparr>,
                            \<lparr>entry_start = 63840301200000000, entry_end = 63840304800000000\<rparr>],
      todos_file = None, active_session_file = None\<rparr>))) =
   \<lparr>work_log_file = Some [\<lparr>entry_start = 63840301200000000, entry_end = 63840304800000000\<rparr>],
      todos_file = None, active_session_file = None\<rparr>"
  using prune_twice_removes_nothing [where now = 63840495600000000 and m = 6
     and silent_first = False and silent_second = False and s =
     "\<lparr>work_log_file = Some [\<lparr>entry_start = 63824600000000000, entry_end = 63824684399999999\<rparr>,
                            \<lparr>entry_start = 63840301200000000, entry_end = 63840304800000000\<rparr>],
      todos_file = None, active_session_file = None\<rparr>"]
  by (simp add: Let_def prune_old_logs_def prune_cutoff_def timedelta_half_days_def
      datetime_sub_def MAX_DELTA_DAYS_def DATETIME_END_def read_json_file_def store_of_def)

subsection \<open>Deadlines and the to-do list\<close>

text \<open>
  Claim C7. \<^verbatim>\<open>check_deadlines\<close> returns without an error for every to-do list and every
  date, changes no file, and what it reports are the items whose deadline parses to a
  date before today (overdue) and the items whose deadline parses to a date from today
  to two days later (upcoming), each list in the order of the to-do list. An item
  without a deadline or with one that does not parse has no date and is in neither list.
  When both lists are empty it prints nothing.
\<close>

theorem check_deadlines_classifies:
  "let todos = read_json_file (todos_file s) [];
       overdue = filter (\<lambda>t. case deadline_date t of None \<Rightarrow> False | Some d \<Rightarrow> d < today) todos;
       upcoming = filter (\<lambda>t. case deadline_date t of None \<Rightarrow> False
                               | Some d \<Rightarrow> today \<le> d \<and> d \<le> today + 2) todos
   in check_deadlines today s =
        (s, if overdue = [] \<and> upcoming = [] then []
            else [Deadline_Notifications overdue upcoming], Returned)"
proof (cases "list_ex (\<lambda>t. truthy (deadline t)) (read_json_file (todos_file s) [])")
  case True
  then show ?thesis
    by (simp add: check_deadlines_def Let_def deadline_loop_filter)
next
  case False
  then show ?thesis
    by (simp add: check_deadlines_def Let_def no_truthy_no_dates)
qed

theorem check_deadlines_classifies_witness:
  "check_deadlines 738895
     \<lparr>work_log_file = None,
      todos_file = Some [\<lparr>task = ''a'', group = None, deadline = Some ''2024-01-13''\<rparr>,
                         \<lparr>task = ''b'', group = None, deadline = Some ''2024-01-12''\<rparr>,
                         \<lparr>task = ''c'', group = None, deadline = Some ''2024-13-01''\<rparr>,
                         \<lparr>task = ''d'', group = None, deadline = Some ''2024-01-09''\<rparr>,
                         \<lparr>task = ''e'', group = None, deadline = None\<rparr>,
                         \<lparr>task = ''f'', group = None, deadline = Some ''2024-01-10''\<rparr>],
      active_session_file = None\<rparr> =
   (\<lparr>work_log_file = None,
      todos_file = Some [\<lparr>task = ''a'', group = None, deadline = Some ''2024-01-13''\<rparr>,
                         \<lparr>task = ''b'', group = None, deadline = Some ''2024-01-12''\<rparr>,
                         \<lparr>task = ''c'', group = None, deadline = Some ''2024-13-01''\<rparr>,
                         \<lparr>task = ''d'', group = None, deadline = Some ''2024-01-09''\<rparr>,
                         \<lparr>task = ''e'', group = None, deadline = None\<rparr>,
                         \<lparr>task = ''f'', group = None, deadline = Some ''2024-01-10''\<rparr>],
      active_session_file = None\<rparr>,
    [Deadline_Notifications
       [\<lparr>task = ''d'', group = None, deadline = Some ''2024-01-09''\<rparr>]
       [\<lparr>task = ''b'', group = None, deadline = Some ''2024-01-12''\<rparr>,
        \<lparr>task = ''f'', group = None, deadline = Some ''2024-01-10''\<rparr>]],
    Returned)"
  using check_deadlines_classifies [of
     "\<lparr>work_log_file = None,
      todos_file = Some [\<lparr>task = ''a'', group = None, deadline = Some ''2024-01-13''\<rparr>,
                         \<lparr>task = ''b'', group = None, deadline = Some ''2024-01-12''\<rparr>,
                         \<lparr>task = ''c'', group = None, deadline = Some ''2024-13-01''\<rparr>,
                         \<lparr>task = ''d'', group = None, deadline = Some ''2024-01-09''\<rparr>,
                         \<lparr>task = ''e'', group = None, deadline = None\<rparr>,
                         \<lparr>task = ''f'', group = None, deadline = Some ''2024-01-10''\<rparr>],
      active_session_file = None\<rparr>" 738895]
  by (simp add: Let_def read_json_file_def deadline_date_def strptime_examples)




text \<open>
  Claim C9. With \<open>n\<close> items in the list, \<^verbatim>\<open>remove_todo\<close> with an id outside 1 to \<open>n\<close>
  prints the error, leaves through \<^verbatim>\<open>sys.exit(1)\<close> and hands back the store it was
  given. With an id in range it writes the list without the item at that position: the
  items before it stay where they were, every later item moves down by one, and the
  other two files are not touched.
\<close>

theorem remove_todo_by_position:
  "let todos = read_json_file (todos_file s) [];
       removed = remove_todo todo_id s;
       remaining = take (nat (todo_id - 1)) todos @ drop (nat todo_id) todos
   in (\<not> (1 \<le> todo_id \<and> todo_id \<le> int (length todos)) \<longrightarrow>
         removed = (s, [Error_Invalid_Id todo_id], Exited 1)) \<and>
      (1 \<le> todo_id \<and> todo_id \<le> int (length todos) \<longrightarrow>
         status_of removed = Returned \<and>
         store_of removed = s\<lparr>todos_file := Some remaining\<rparr> \<and>
         length remaining + 1 = length todos \<and>
         (\<forall>j. j < nat (todo_id - 1) \<longrightarrow> remaining ! j = todos ! j) \<and>
         (\<forall>j. nat (todo_id - 1) \<le> j \<and> j < length remaining \<longrightarrow>
              remaining ! j = todos ! (j + 1)))"
proof -
  let ?todos = "read_json_file (todos_file s) []"
  let ?k = "nat (todo_id - 1)"
  let ?new = "take ?k ?todos @ drop (nat todo_id) ?todos"
  have bad: "\<not> (1 \<le> todo_id \<and> todo_id \<le> int (length ?todos)) \<Longrightarrow>
      remove_todo todo_id s = (s, [Error_Invalid_Id todo_id], Exited 1)"
    by (auto simp: remove_todo_def Let_def)
  have good: "1 \<le> todo_id \<and> todo_id \<le> int (length ?todos) \<Longrightarrow>
      store_of (remove_todo todo_id s) = s\<lparr>todos_file := Some ?new\<rparr> \<and>
      status_of (remove_todo todo_id s) = Returned"
    by (simp add: remove_todo_def Let_def list_todos_store list_todos_status)
       (simp add: store_of_def status_of_def)
  have shape: "1 \<le> todo_id \<and> todo_id \<le> int (length ?todos) \<Longrightarrow>
      length ?new + 1 = length ?todos \<and>
      (\<forall>j. j < ?k \<longrightarrow> ?new ! j = ?todos ! j) \<and>
      (\<forall>j. ?k \<le> j \<and> j < length ?new \<longrightarrow> ?new ! j = ?todos ! (j + 1))"
  proof -
    assume r: "1 \<le> todo_id \<and> todo_id \<le> int (length ?todos)"
    then have k: "?k < length ?todos" and n: "nat todo_id = Suc ?k" by auto
    have len: "length ?new + 1 = length ?todos" using k n by simp
    have low: "\<forall>j. j < ?k \<longrightarrow> ?new ! j = ?todos ! j"
      using k by (simp add: nth_append)
    have high: "\<forall>j. ?k \<le> j \<and> j < length ?new \<longrightarrow> ?new ! j = ?todos ! (j + 1)"
    proof (intro allI impI)
      fix j assume j: "?k \<le> j \<and> j < length ?new"
      have lt: "length (take ?k ?todos) = ?k" using k by simp
      have "?new ! j = drop (nat todo_id) ?todos ! (j - ?k)"
        using j lt by (simp add: nth_append)
      also have "\<dots> = ?todos ! (nat todo_id + (j - ?k))"
        using j k n by (intro nth_drop) simp
      also have "nat todo_id + (j - ?k) = j + 1" using j n by simp
      finally show "?new ! j = ?todos ! (j + 1)" .
    qed
    show ?thesis using len low high by blast
  qed
  show ?thesis
    unfolding Let_def using bad good shape by blast
qed

theorem remove_todo_by_position_witness:
  "store_of (remove_todo 1
     \<lparr>work_log_file = None,
      todos_file = Some [\<lparr>task = ''a'', group = None, deadline = None\<rparr>,
                         \<lparr>task = ''b'', group = None, deadline = None\<rparr>,
                         \<lparr>task = ''c'', group = None, deadline = None\<rparr>],
      active_session_file = None\<rparr>) =
     \<lparr>work_log_file = None,
      todos_file = Some [\<lparr>task = ''b'', group = None, deadline = None\<rparr>,
                         \<lparr>task = ''c'', group = None, deadline = None\<rparr>],
      active_session_file = None\<rparr> \<and>
   remove_todo 4
     \<lparr>work_log_file = None,
      todos_file = Some [\<lparr>task = ''a'', group = None, deadline = None\<rparr>,
                         \<lparr>task = ''b'', group = None, deadline = None\<rparr>,
                         \<lparr>task = ''c'', group = None, deadline = None\<rparr>],
      active_session_file = None\<rparr> =
   (\<lparr>work_log_file = None,
      todos_file = Some [\<lparr>task = ''a'', group = None, deadline = None\<rparr>,
                         \<lparr>task = ''b'', group = None, deadline = None\<rparr>,
                         \<lparr>task = ''c'', group = None, deadline = None\<rparr>],
      active_session_file = None\<rparr>, [Error_Invalid_Id 4], Exited 1)"
  using remove_todo_by_position [where todo_id = 1 and s =
     "\<lparr>work_log_file = None,
      todos_file = Some [\<lparr>task = ''a'', group = None, deadline = None\<rparr>,
                         \<lparr>task = ''b'', group = None, deadline = None\<rparr>,
                         \<lparr>task = ''c'', group = None, deadline = None\<rparr>],
      active_session_file = None\<rparr>"]
    remove_todo_by_position [where todo_id = 4 and s =
     "\<lparr>work_log_file = None,
      todos_file = Some [\<lparr>task = ''a'', group = None, deadline = None\<rparr>,
                         \<lparr>task = ''b'', group = None, deadline = None\<rparr>,
                         \<lparr>task = ''c'', group = None, deadline = None\<rparr>],
      active_session_file = None\<rparr>"]
  by (simp add: Let_def read_json_file_def)

subsection \<open>The queries write nothing\<close>

text \<open>
  Claim C10. \<^verbatim>\<open>show_status\<close>, \<^verbatim>\<open>show_log\<close>, \<^verbatim>\<open>check_deadlines\<close> and \<^verbatim>\<open>list_todos\<close>
  hand back the store they were given, whatever it holds: none of them writes a file.
  (\<^verbatim>\<open>list_todos\<close> numbers the items it has read in memory only.)
\<close>

theorem queries_leave_store_unchanged:
  "store_of (show_status now s) = s \<and> store_of (show_log now week_offset s) = s \<and>
   store_of (check_deadlines today s) = s \<and> store_of (list_todos s) = s"
  by (simp add: check_deadlines_store list_todos_store)
     (simp add: show_status_def show_log_def store_of_def Let_def split: option.splits prod.splits)

theorem queries_leave_store_unchanged_witness:
  "store_of (show_status 63840495600000000
     \<lparr>work_log_file = None, todos_file = None,
      active_session_file = Some \<lparr>start_time = 63840474000000000\<rparr>\<rparr>) =
     \<lparr>work_log_file = None, todos_file = None,
      active_session_file = Some \<lparr>start_time = 63840474000000000\<rparr>\<rparr> \<and>
   store_of (show_log 63840495600000000 0
     \<lparr>work_log_file = None, todos_file = None,
      active_session_file = Some \<lparr>start_time = 63840474000000000\<rparr>\<rparr>) =
     \<lparr>work_log_file = None, todos_file = None,
      active_session_file = Some \<lparr>start_time = 63840474000000000\<rparr>\<rparr> \<and>
   store_of (check_deadlines 738895
     \<lparr>work_log_file = None, todos_file = None,
      active_session_file = Some \<lparr>start_time = 63840474000000000\<rparr>\<rparr>) =
     \<lparr>work_log_file = None, todos_file = None,
      active_session_file = Some \<lparr>start_time = 63840474000000000\<rparr>\<rparr> \<and>
   store_of (list_todos
     \<lparr>work_log_file = None, todos_file = None,
      active_session_file = Some \<lparr>start_time = 63840474000000000\<rparr>\<rparr>) =
     \<lparr>work_log_file = None, todos_file = None,
      active_session_file = Some \<lparr>start_time = 63840474000000000\<rparr>\<rparr>"
  by (rule queries_leave_store_unchanged)

end
